theory Spec2Isabelle
  imports Complex_Main "HOL-Library.Word"
begin

section \<open>Data model\<close>

text \<open>
  Python's integers are unbounded (\<open>int\<close>); an integer that SQLite stores has 64 bits
  and is read back as its signed value. Binding a Python integer outside that range
  raises \<^verbatim>\<open>OverflowError\<close>.
\<close>

type_synonym int64 = "64 word"

definition in_int64 :: "int \<Rightarrow> bool" where
  "in_int64 i = (- (2 ^ 63) \<le> i \<and> i < 2 ^ 63)"

text \<open>
  A Python float is a number, an infinity or NaN. SQLite stores a bound NaN as NULL;
  a stored real is read back as a float, NULL as \<^verbatim>\<open>None\<close>. Comparison with NaN is false.
\<close>

datatype pyfloat = Finite real | Pos_inf | Neg_inf | NaN

fun bind_float :: "pyfloat \<Rightarrow> pyfloat option" where
  "bind_float NaN = None"
| "bind_float x = Some x"

fun le_zero :: "pyfloat \<Rightarrow> bool" where
  "le_zero (Finite r) = (r \<le> 0)"
| "le_zero Neg_inf = True"
| "le_zero Pos_inf = False"
| "le_zero NaN = False"

text \<open>
  The rows of the relational schema, with the columns that \<^verbatim>\<open>cli.py\<close> reads and
  writes. SQL text is \<open>string\<close>, a nullable text column is \<open>string option\<close>, a price
  column holds a float or NULL.
\<close>

record customer =
  customer_id :: int64
  first_name :: string
  last_name :: string

record dining_table =
  table_id :: int64
  table_number :: string
  capacity :: int64

record reservation =
  reservation_id :: int64
  r_customer_id :: int64
  r_table_id :: int64
  reservation_date :: string
  reservation_time :: string
  party_size :: int64
  r_status :: string
  special_requests :: "string option"

record category =
  category_id :: int64
  c_name :: string

record menu_item =
  item_id :: int64
  mi_name :: string
  mi_description :: "string option"
  price :: "pyfloat option"
  mi_category_id :: int64
  is_available :: int64

record order_row =
  order_id :: int64
  o_status :: string

record order_item =
  order_item_id :: int64
  oi_order_id :: int64
  oi_item_id :: int64
  quantity :: int64
  unit_price :: "pyfloat option"
  special_instructions :: "string option"

record database =
  customers :: "customer list"
  tables :: "dining_table list"
  reservations :: "reservation list"
  categories :: "category list"
  menu_items :: "menu_item list"
  orders :: "order_row list"
  order_items :: "order_item list"

text \<open>
  The usual key of a new row in a table with an integer primary key: 1 in an empty
  table, otherwise one more than the largest key in use; none when the largest key in
  use is the largest 64-bit integer.
\<close>

definition next_rowid :: "int64 list \<Rightarrow> int64 option" where
  "next_rowid ids =
     (case ids of
        [] \<Rightarrow> Some 1
      | k # ks \<Rightarrow>
          if fold max (map sint ks) (sint k) = 2 ^ 63 - 1 then None
          else Some (word_of_int (fold max (map sint ks) (sint k) + 1)))"

text \<open>
  A database file: the number of user tables listed in \<^verbatim>\<open>sqlite_master\<close>; what the
  table declarations of \<^verbatim>\<open>schema.sql\<close> decide for the inserts and updates of \<^verbatim>\<open>cli.py\<close>;
  and the rows. \<^verbatim>\<open>schema.sql\<close> is not among the sources, so the file carries as data
  the two column defaults that the inserts rely on, whether the two price columns are
  declared \<^verbatim>\<open>NOT NULL\<close>, and \<open>new_key\<close>: the key that the engine gives to a row inserted
  into the named table, from the keys in use there, or none when it refuses the insert
  (how keys are chosen, and whether a table can run out of them, depends on the table's
  declaration).
\<close>

record dbfile =
  user_tables :: nat
  status_default :: string
  available_default :: int64
  price_not_null :: bool
  unit_price_not_null :: bool
  new_key :: "string \<Rightarrow> int64 list \<Rightarrow> int64 option"
  rows :: database

definition empty_database :: database where
  "empty_database = \<lparr>customers = [], tables = [], reservations = [], categories = [],
     menu_items = [], orders = [], order_items = []\<rparr>"

definition new_file :: dbfile where
  "new_file = \<lparr>user_tables = 0, status_default = [], available_default = 0,
     price_not_null = False, unit_price_not_null = False, new_key = (\<lambda>_. next_rowid),
     rows = empty_database\<rparr>"

section \<open>The sqlite3 connection\<close>

text \<open>
  Every call that the program makes on the \<^verbatim>\<open>sqlite3\<close> module is recorded, in order,
  as an event. A statement names the table it addresses.
\<close>

datatype stmt = Pragma_foreign_keys_on | Select string | Insert string | Update string

datatype ddl = Create_table string | Set_foreign_keys bool | Rejected

datatype event =
    Connect
  | Open_cursor
  | Exec stmt
  | Exec_script ddl
  | Commit
  | Rollback
  | Close_cursor
  | Close_conn
  | Unlink

fun is_write :: "event \<Rightarrow> bool" where
  "is_write (Exec (Insert _)) = True"
| "is_write (Exec (Update _)) = True"
| "is_write (Exec_script _) = True"
| "is_write Unlink = True"
| "is_write _ = False"

text \<open>
  The program is synchronous and holds at most one connection at a time. \<open>disk\<close> is the
  committed content of \<^verbatim>\<open>DB_PATH\<close> (\<open>None\<close>: the path does not exist), \<open>pending\<close> is
  what the open connection sees, \<open>foreign_keys\<close> is the connection's enforcement flag
  (off when SQLite opens a connection).
\<close>

record world =
  disk :: "dbfile option"
  conn_open :: bool
  foreign_keys :: bool
  pending :: dbfile
  cursor_open :: bool
  trace :: "event list"

definition file_of :: "dbfile option \<Rightarrow> dbfile" where
  "file_of d = (case d of None \<Rightarrow> new_file | Some f \<Rightarrow> f)"

definition log :: "event list \<Rightarrow> world \<Rightarrow> world" where
  "log es w = w\<lparr>trace := trace w @ es\<rparr>"

definition sqlite3_connect :: "world \<Rightarrow> world" where
  "sqlite3_connect w =
     log [Connect] (w\<lparr>disk := Some (file_of (disk w)), conn_open := True,
                      foreign_keys := False, pending := file_of (disk w)\<rparr>)"

definition conn_cursor :: "world \<Rightarrow> world" where
  "conn_cursor w = log [Open_cursor] (w\<lparr>cursor_open := True\<rparr>)"

definition conn_commit :: "world \<Rightarrow> world" where
  "conn_commit w = log [Commit] (w\<lparr>disk := Some (pending w)\<rparr>)"

definition conn_rollback :: "world \<Rightarrow> world" where
  "conn_rollback w = log [Rollback] (w\<lparr>pending := file_of (disk w)\<rparr>)"

definition cursor_close :: "world \<Rightarrow> world" where
  "cursor_close w = log [Close_cursor] (w\<lparr>cursor_open := False\<rparr>)"

definition conn_close :: "world \<Rightarrow> world" where
  "conn_close w = log [Close_conn] (w\<lparr>conn_open := False, pending := file_of (disk w)\<rparr>)"

text \<open>\<^verbatim>\<open>get_connection\<close> (database.py): connect, then \<^verbatim>\<open>PRAGMA foreign_keys = ON\<close>.\<close>

definition get_connection :: "world \<Rightarrow> world" where
  "get_connection w =
     log [Exec Pragma_foreign_keys_on] ((sqlite3_connect w)\<lparr>foreign_keys := True\<rparr>)"

section \<open>Errors\<close>

text \<open>
  Each constructor is one of the source's failures: the message it prints, then
  \<^verbatim>\<open>raise typer.Exit(1)\<close> (a subclass of \<^verbatim>\<open>Exception\<close>). \<open>Declined\<close> is \<^verbatim>\<open>typer.Exit()\<close>
  after the operator answers no to a confirmation. \<open>Type_error\<close> is Python's error on
  subscripting or formatting \<^verbatim>\<open>None\<close>, \<open>Overflow_error\<close> its error on binding an integer
  outside 64 bits, \<open>Integrity_error\<close> is \<^verbatim>\<open>sqlite3.IntegrityError\<close>, \<open>Sqlite_error\<close> any other
  \<^verbatim>\<open>sqlite3.Error\<close>.
\<close>

datatype error =
    Not_initialized
  | File_not_found
  | Invalid_format
  | Past_date
  | Invalid_party_size
  | Customer_not_found int
  | Table_not_found int
  | Declined
  | Slot_conflict
  | Invalid_quantity
  | Order_not_found int
  | Order_closed string
  | Item_not_found int
  | Invalid_price
  | Category_not_found int
  | No_updates
  | Type_error
  | Overflow_error
  | Integrity_error
  | Sqlite_error

section \<open>The transaction manager\<close>

text \<open>
  The block under \<^verbatim>\<open>with get_db_cursor() as (conn, cursor)\<close> is a function of the
  database the connection sees: it returns its outcome (an exception or a value), the
  database as its statements left it, and the statements it executed.
\<close>

type_synonym 'a body = "dbfile \<Rightarrow> (error + 'a) \<times> dbfile \<times> stmt list"

definition run_body :: "'a body \<Rightarrow> world \<Rightarrow> (error + 'a) \<times> world" where
  "run_body body w =
     (case body (pending w) of
        (r, f, ss) \<Rightarrow> (r, log (map Exec ss) (w\<lparr>pending := f\<rparr>)))"

text \<open>
  \<^verbatim>\<open>get_db_cursor\<close> (database.py): \<^verbatim>\<open>try: yield; commit\<close>,
  \<^verbatim>\<open>except Exception: rollback; raise\<close>, \<^verbatim>\<open>finally: cursor.close(); conn.close()\<close>.
\<close>

definition get_db_cursor :: "'a body \<Rightarrow> world \<Rightarrow> (error + 'a) \<times> world" where
  "get_db_cursor body w =
     (case run_body body (conn_cursor (get_connection w)) of
        (Inr v, w') \<Rightarrow> (Inr v, conn_close (cursor_close (conn_commit w')))
      | (Inl e, w') \<Rightarrow> (Inl e, conn_close (cursor_close (conn_rollback w'))))"

text \<open>
  \<^verbatim>\<open>check_database_exists\<close> (database.py): false when the path does not exist;
  otherwise a unit of work that counts the user tables in \<^verbatim>\<open>sqlite_master\<close>.
\<close>

definition count_tables :: "bool body" where
  "count_tables f = (Inr (0 < user_tables f), f, [Select ''sqlite_master''])"

definition check_database_exists :: "world \<Rightarrow> bool \<times> world" where
  "check_database_exists w =
     (case disk w of
        None \<Rightarrow> (False, w)
      | Some _ \<Rightarrow>
          (case get_db_cursor count_tables w of
             (Inr b, w') \<Rightarrow> (b, w')
           | (Inl _, w') \<Rightarrow> (False, w')))"

text \<open>
  \<^verbatim>\<open>init_database\<close> (database.py) connects with \<^verbatim>\<open>sqlite3.connect\<close> directly and runs
  the schema script. \<^verbatim>\<open>executescript\<close> runs in autocommit mode: each statement of the
  script is committed as it is executed, and the first statement that the engine
  rejects ends the script with \<^verbatim>\<open>sqlite3.Error\<close>. The script is the parsed content of
  the schema file: table creations and foreign-key pragmas.
\<close>

fun executescript :: "ddl list \<Rightarrow> world \<Rightarrow> bool \<times> world" where
  "executescript [] w = (True, w)"
| "executescript (Rejected # _) w = (False, log [Exec_script Rejected] w)"
| "executescript (Create_table n # ds) w =
     executescript ds
       (log [Exec_script (Create_table n)]
          (w\<lparr>pending := (pending w)\<lparr>user_tables := Suc (user_tables (pending w))\<rparr>,
             disk := Some ((pending w)\<lparr>user_tables := Suc (user_tables (pending w))\<rparr>)\<rparr>))"
| "executescript (Set_foreign_keys b # ds) w =
     executescript ds (log [Exec_script (Set_foreign_keys b)] (w\<lparr>foreign_keys := b\<rparr>))"

definition init_database :: "ddl list option \<Rightarrow> world \<Rightarrow> (error + bool) \<times> world" where
  "init_database schema w =
     (case schema of
        None \<Rightarrow> (Inl File_not_found, w)
      | Some script \<Rightarrow>
          (case executescript script (sqlite3_connect w) of
             (True, w') \<Rightarrow> (Inr True, conn_close (conn_commit w'))
           | (False, w') \<Rightarrow> (Inr False, conn_close (conn_rollback w'))))"

definition reset_database :: "ddl list option \<Rightarrow> world \<Rightarrow> (error + bool) \<times> world" where
  "reset_database schema w =
     init_database schema
       (case disk w of None \<Rightarrow> w | Some _ \<Rightarrow> log [Unlink] (w\<lparr>disk := None\<rparr>))"

text \<open>
  Foreign-key enforcement over a trace: scanning the events with the flag of the
  connection that is open (\<open>None\<close>: no connection), every event on a connection other
  than a pragma that sets the flag must find the flag on.
\<close>

fun fk_scan :: "bool option \<Rightarrow> event list \<Rightarrow> bool" where
  "fk_scan st [] = True"
| "fk_scan st (Connect # es) = fk_scan (Some False) es"
| "fk_scan st (Unlink # es) = fk_scan st es"
| "fk_scan st (Exec Pragma_foreign_keys_on # es) = fk_scan (Some True) es"
| "fk_scan st (Exec_script (Set_foreign_keys b) # es) = fk_scan (Some b) es"
| "fk_scan st (Close_conn # es) = (st \<noteq> Some False \<and> fk_scan None es)"
| "fk_scan st (e # es) = (st \<noteq> Some False \<and> fk_scan st es)"

definition foreign_keys_enforced :: "event list \<Rightarrow> bool" where
  "foreign_keys_enforced es = fk_scan None es"

section \<open>Library functions: date and time strings\<close>

text \<open>
  \<^verbatim>\<open>datetime.strptime\<close> compiles its format into a regular expression, matches it at
  the start of the string and rejects the string unless the match reaches its end.
  The directives used by \<^verbatim>\<open>cli.py\<close> are
  \<^verbatim>\<open>%H = 2[0-3]|[0-1]\d|\d\<close>, \<^verbatim>\<open>%M = [0-5]\d|\d\<close>, \<^verbatim>\<open>%Y = \d\d\d\d\<close>,
  \<^verbatim>\<open>%m = 1[0-2]|0[1-9]|[1-9]\<close> and \<^verbatim>\<open>%d = 3[0-1]|[1-2]\d|0[1-9]|[1-9]| [1-9]\<close>.
  Strings are sequences of 8-bit characters here, where \<^verbatim>\<open>\d\<close> is \<^verbatim>\<open>[0-9]\<close>.
\<close>

definition is_digit :: "char \<Rightarrow> bool" where
  "is_digit c = (c \<in> set ''0123456789'')"

definition digit :: "char \<Rightarrow> nat" where
  "digit c = of_char c - 48"

fun hour_re :: "string \<Rightarrow> nat option" where
  "hour_re [a] = (if is_digit a then Some (digit a) else None)"
| "hour_re [a, b] =
     (if (a = CHR ''2'' \<and> b \<in> set ''0123'') \<or> (a \<in> set ''01'' \<and> is_digit b)
      then Some (10 * digit a + digit b) else None)"
| "hour_re _ = None"

fun minute_re :: "string \<Rightarrow> nat option" where
  "minute_re [a] = (if is_digit a then Some (digit a) else None)"
| "minute_re [a, b] =
     (if a \<in> set ''012345'' \<and> is_digit b then Some (10 * digit a + digit b) else None)"
| "minute_re _ = None"

fun month_re :: "string \<Rightarrow> nat option" where
  "month_re [a] = (if a \<in> set ''123456789'' then Some (digit a) else None)"
| "month_re [a, b] =
     (if (a = CHR ''1'' \<and> b \<in> set ''012'') \<or> (a = CHR ''0'' \<and> b \<in> set ''123456789'')
      then Some (10 * digit a + digit b) else None)"
| "month_re _ = None"

fun day_re :: "string \<Rightarrow> nat option" where
  "day_re [a] = (if a \<in> set ''123456789'' then Some (digit a) else None)"
| "day_re [a, b] =
     (if (a = CHR ''3'' \<and> b \<in> set ''01'') \<or> (a \<in> set ''12'' \<and> is_digit b)
         \<or> (a = CHR ''0'' \<and> b \<in> set ''123456789'')
      then Some (10 * digit a + digit b)
      else if a = CHR '' '' \<and> b \<in> set ''123456789'' then Some (digit b)
      else None)"
| "day_re _ = None"

text \<open>\<^verbatim>\<open>datetime.strptime(s, "%H:%M")\<close>: the hour and the minute, or \<open>None\<close> for ValueError.\<close>

definition strptime_HM :: "string \<Rightarrow> (nat \<times> nat) option" where
  "strptime_HM s =
     (case dropWhile (\<lambda>c. c \<noteq> CHR '':'') s of
        [] \<Rightarrow> None
      | _ # m \<Rightarrow>
          (case (hour_re (takeWhile (\<lambda>c. c \<noteq> CHR '':'') s), minute_re m) of
             (Some hh, Some mm) \<Rightarrow> Some (hh, mm)
           | _ \<Rightarrow> None))"

definition is_leap :: "nat \<Rightarrow> bool" where
  "is_leap y = (y mod 4 = 0 \<and> (y mod 100 \<noteq> 0 \<or> y mod 400 = 0))"

definition days_in_month :: "nat \<Rightarrow> nat \<Rightarrow> nat" where
  "days_in_month y m =
     (if m = 2 then (if is_leap y then 29 else 28)
      else if m \<in> {4, 6, 9, 11} then 30 else 31)"

text \<open>
  \<^verbatim>\<open>datetime.strptime(s, "%Y-%m-%d").date()\<close>: year, month and day, or \<open>None\<close> for
  ValueError (no match, year 0, or a day the month does not have).
\<close>

definition strptime_Ymd :: "string \<Rightarrow> (nat \<times> nat \<times> nat) option" where
  "strptime_Ymd s =
     (case s of
        y1 # y2 # y3 # y4 # dash # rest \<Rightarrow>
          if is_digit y1 \<and> is_digit y2 \<and> is_digit y3 \<and> is_digit y4 \<and> dash = CHR ''-''
          then
            (case dropWhile (\<lambda>c. c \<noteq> CHR ''-'') rest of
               [] \<Rightarrow> None
             | _ # dd \<Rightarrow>
                 (case (month_re (takeWhile (\<lambda>c. c \<noteq> CHR ''-'') rest), day_re dd) of
                    (Some m, Some d) \<Rightarrow>
                      (let y = 1000 * digit y1 + 100 * digit y2 + 10 * digit y3 + digit y4
                       in if 1 \<le> y \<and> d \<le> days_in_month y m then Some (y, m, d) else None)
                  | _ \<Rightarrow> None))
          else None
      | _ \<Rightarrow> None)"

text \<open>\<^verbatim>\<open>date.__lt__\<close>: dates compare by year, then month, then day.\<close>

fun date_less :: "nat \<times> nat \<times> nat \<Rightarrow> nat \<times> nat \<times> nat \<Rightarrow> bool" where
  "date_less (y, m, d) (y', m', d') = (y < y' \<or> (y = y' \<and> (m < m' \<or> (m = m' \<and> d < d'))))"

text \<open>
  SQLite's \<^verbatim>\<open>time(X, '+N hour')\<close>, for the strings that reach it after \<^verbatim>\<open>strptime\<close>
  accepted them: SQLite reads a time of day only in the form \<^verbatim>\<open>HH:MM\<close> with two digits
  each (hour at most 24, minute at most 59) and gives NULL otherwise; the result is
  the shifted time of day, wrapped at midnight, in the form \<^verbatim>\<open>HH:MM:SS\<close>.
\<close>

definition sqlite_hhmm :: "string \<Rightarrow> nat option" where
  "sqlite_hhmm s =
     (case s of
        [a, b, c, d, e] \<Rightarrow>
          if is_digit a \<and> is_digit b \<and> c = CHR '':'' \<and> is_digit d \<and> is_digit e
             \<and> 10 * digit a + digit b \<le> 24 \<and> 10 * digit d + digit e \<le> 59
          then Some ((10 * digit a + digit b) * 60 + (10 * digit d + digit e))
          else None
      | _ \<Rightarrow> None)"

definition digit_char :: "nat \<Rightarrow> char" where
  "digit_char n = ''0123456789'' ! (n mod 10)"

definition two_digits :: "nat \<Rightarrow> string" where
  "two_digits n = [digit_char (n div 10), digit_char n]"

definition sqlite_time :: "string \<Rightarrow> int \<Rightarrow> string option" where
  "sqlite_time s hours =
     (case sqlite_hhmm s of
        None \<Rightarrow> None
      | Some m \<Rightarrow>
          (let t = nat ((int m + 60 * hours) mod 1440)
           in Some (two_digits (t div 60) @ '':'' @ two_digits (t mod 60) @ '':00'')))"

text \<open>SQLite compares text byte by byte; a proper prefix is smaller.\<close>

fun str_le :: "string \<Rightarrow> string \<Rightarrow> bool" where
  "str_le [] _ = True"
| "str_le (_ # _) [] = False"
| "str_le (a # as) (b # bs) = (if a = b then str_le as bs else (of_char a :: nat) < of_char b)"

text \<open>\<^verbatim>\<open>x BETWEEN lo AND hi\<close> selects a row only when neither bound is NULL.\<close>

definition sql_between :: "string \<Rightarrow> string option \<Rightarrow> string option \<Rightarrow> bool" where
  "sql_between x lo hi =
     (case (lo, hi) of (Some l, Some h) \<Rightarrow> str_le l x \<and> str_le x h | _ \<Rightarrow> False)"

section \<open>Host commands\<close>

text \<open>
  The conflict query of \<^verbatim>\<open>create_reservation\<close>:
  \<^verbatim>\<open>WHERE table_id = ? AND reservation_date = ? AND reservation_time BETWEEN
  time(?, '-1 hour') AND time(?, '+1 hour') AND status IN ('Confirmed', 'Seated')\<close>.
\<close>

definition conflicting :: "dbfile \<Rightarrow> int \<Rightarrow> string \<Rightarrow> string \<Rightarrow> reservation list" where
  "conflicting f tid date_str time_str =
     filter (\<lambda>r. sint (r_table_id r) = tid \<and> reservation_date r = date_str
                \<and> sql_between (reservation_time r)
                     (sqlite_time time_str (- 1)) (sqlite_time time_str 1)
                \<and> r_status r \<in> {''Confirmed'', ''Seated''})
       (reservations (rows f))"

definition insert_reservation ::
  "int64 \<Rightarrow> int \<Rightarrow> int \<Rightarrow> string \<Rightarrow> string \<Rightarrow> int \<Rightarrow> string option \<Rightarrow> dbfile \<Rightarrow> dbfile" where
  "insert_reservation k cid tid date_str time_str party notes f =
     f\<lparr>rows := (rows f)\<lparr>reservations := reservations (rows f) @
        [\<lparr>reservation_id = k, r_customer_id = word_of_int cid, r_table_id = word_of_int tid,
          reservation_date = date_str, reservation_time = time_str,
          party_size = word_of_int party, r_status = status_default f,
          special_requests = notes\<rparr>]\<rparr>\<rparr>"

text \<open>
  The block of \<^verbatim>\<open>create_reservation\<close> under \<^verbatim>\<open>get_db_cursor\<close>. \<open>confirm\<close> is the
  operator's answer to \<^verbatim>\<open>typer.confirm\<close>, read only when the question is asked. Each
  \<^verbatim>\<open>cursor.execute\<close> first binds its parameters, so an integer outside 64 bits raises
  before the statement runs: the customer identity at the first query, the table
  identity at the second, the party size at the insert.
\<close>

definition create_reservation_body ::
  "int \<Rightarrow> int \<Rightarrow> string \<Rightarrow> string \<Rightarrow> int \<Rightarrow> string option \<Rightarrow> bool
     \<Rightarrow> (int \<times> customer \<times> dining_table) body" where
  "create_reservation_body cid tid date_str time_str party notes confirm f =
     (if \<not> in_int64 cid then (Inl Overflow_error, f, [])
      else
       (case find (\<lambda>c. sint (customer_id c) = cid) (customers (rows f)) of
          None \<Rightarrow> (Inl (Customer_not_found cid), f, [Select ''customers''])
        | Some cust \<Rightarrow>
           (if \<not> in_int64 tid then (Inl Overflow_error, f, [Select ''customers''])
            else
             (case find (\<lambda>t. sint (table_id t) = tid) (tables (rows f)) of
                None \<Rightarrow>
                  (Inl (Table_not_found tid), f, [Select ''customers'', Select ''tables''])
              | Some table_info \<Rightarrow>
                 (if sint (capacity table_info) < party \<and> \<not> confirm
                  then (Inl Declined, f, [Select ''customers'', Select ''tables''])
                  else if conflicting f tid date_str time_str \<noteq> []
                  then (Inl Slot_conflict, f,
                         [Select ''customers'', Select ''tables'', Select ''reservations''])
                  else if \<not> in_int64 party
                  then (Inl Overflow_error, f,
                         [Select ''customers'', Select ''tables'', Select ''reservations''])
                  else
                   (case new_key f ''reservations'' (map reservation_id (reservations (rows f))) of
                      None \<Rightarrow>
                        (Inl Sqlite_error, f,
                          [Select ''customers'', Select ''tables'', Select ''reservations'',
                           Insert ''reservations''])
                    | Some k \<Rightarrow>
                        (Inr (sint k, cust, table_info),
                         insert_reservation k cid tid date_str time_str party notes f,
                         [Select ''customers'', Select ''tables'', Select ''reservations'',
                          Insert ''reservations''])))))))"

text \<open>\<^verbatim>\<open>create_reservation\<close> (cli.py); \<open>today\<close> is \<^verbatim>\<open>date.today()\<close>.\<close>

definition create_reservation ::
  "int \<Rightarrow> int \<Rightarrow> string \<Rightarrow> string \<Rightarrow> int \<Rightarrow> string option \<Rightarrow> nat \<times> nat \<times> nat \<Rightarrow> bool
     \<Rightarrow> world \<Rightarrow> (error + int \<times> customer \<times> dining_table) \<times> world" where
  "create_reservation cid tid date_str time_str party notes today confirm w =
     (case check_database_exists w of
        (False, w1) \<Rightarrow> (Inl Not_initialized, w1)
      | (True, w1) \<Rightarrow>
          (case (strptime_Ymd date_str, strptime_HM time_str) of
             (Some res_date, Some _) \<Rightarrow>
               if date_less res_date today then (Inl Past_date, w1)
               else if party < 1 then (Inl Invalid_party_size, w1)
               else get_db_cursor
                      (create_reservation_body cid tid date_str time_str party notes confirm) w1
           | _ \<Rightarrow> (Inl Invalid_format, w1)))"

text \<open>
  A row as \<^verbatim>\<open>get_upcoming_reservations\<close> returns it. That query lives in
  \<^verbatim>\<open>queries.py\<close>, which is not among the sources, so its result is an argument of
  \<open>list_reservations\<close>.
\<close>

record upcoming =
  u_reservation_id :: int
  u_reservation_date :: string
  u_reservation_time :: string
  customer_name :: string
  u_table_number :: string
  u_party_size :: int
  u_special_requests :: "string option"

text \<open>
  A line of the table that \<^verbatim>\<open>list_reservations\<close> prints; the integer columns stand
  for their decimal rendering, the notes are cut to 30 characters.
\<close>

definition table_line :: "upcoming \<Rightarrow> int \<times> string \<times> string \<times> string \<times> string \<times> int \<times> string" where
  "table_line r =
     (u_reservation_id r, u_reservation_date r, u_reservation_time r, customer_name r,
      u_table_number r, u_party_size r,
      take 30 (case u_special_requests r of None \<Rightarrow> [] | Some n \<Rightarrow> n))"

definition date_filter :: "string option \<Rightarrow> upcoming list \<Rightarrow> upcoming list" where
  "date_filter date_str results =
     (case date_str of
        None \<Rightarrow> results
      | Some d \<Rightarrow> if d = [] then results
                  else filter (\<lambda>r. u_reservation_date r = d) results)"

text \<open>
  \<^verbatim>\<open>list_reservations\<close> (cli.py): the lines of the printed table; no line when the
  command only reports that there is no upcoming reservation.
\<close>

definition list_reservations ::
  "upcoming list \<Rightarrow> string option \<Rightarrow> world
     \<Rightarrow> (error + (int \<times> string \<times> string \<times> string \<times> string \<times> int \<times> string) list) \<times> world" where
  "list_reservations results date_str w =
     (case check_database_exists w of
        (False, w1) \<Rightarrow> (Inl Not_initialized, w1)
      | (True, w1) \<Rightarrow>
          if date_filter date_str results = [] then (Inr [], w1)
          else (Inr (map table_line (take 20 (date_filter date_str results))), w1))"

section \<open>Server commands\<close>

definition insert_order_item ::
  "int64 \<Rightarrow> int \<Rightarrow> int \<Rightarrow> int \<Rightarrow> pyfloat option \<Rightarrow> string option \<Rightarrow> dbfile \<Rightarrow> dbfile" where
  "insert_order_item k oid iid qty p notes f =
     f\<lparr>rows := (rows f)\<lparr>order_items := order_items (rows f) @
        [\<lparr>order_item_id = k, oi_order_id = word_of_int oid, oi_item_id = word_of_int iid,
          quantity = word_of_int qty, unit_price = p, special_instructions = notes\<rparr>]\<rparr>\<rparr>"

text \<open>
  The block of \<^verbatim>\<open>add_order_item\<close> under \<^verbatim>\<open>get_db_cursor\<close>. An integer outside 64 bits
  raises where it is first bound: the order identity at the first query, the item
  identity at the second, the quantity at the insert. The insert copies the price it
  read, NULL included, which a \<^verbatim>\<open>NOT NULL\<close> column refuses. The block ends by reading
  the order's total, which the schema's triggers maintain; \<^verbatim>\<open>schema.sql\<close> is not among
  the sources, so the total is not part of the result here, only the read is logged.
\<close>

definition add_order_item_body ::
  "int \<Rightarrow> int \<Rightarrow> int \<Rightarrow> string option \<Rightarrow> bool \<Rightarrow> (menu_item \<times> int) body" where
  "add_order_item_body oid iid qty notes confirm f =
     (if \<not> in_int64 oid then (Inl Overflow_error, f, [])
      else
       (case find (\<lambda>ord. sint (order_id ord) = oid) (orders (rows f)) of
          None \<Rightarrow> (Inl (Order_not_found oid), f, [Select ''orders''])
        | Some ord \<Rightarrow>
           (if o_status ord \<in> {''Completed'', ''Cancelled''}
            then (Inl (Order_closed (o_status ord)), f, [Select ''orders''])
            else if \<not> in_int64 iid then (Inl Overflow_error, f, [Select ''orders''])
            else
             (case find (\<lambda>m. sint (item_id m) = iid) (menu_items (rows f)) of
                None \<Rightarrow>
                  (Inl (Item_not_found iid), f, [Select ''orders'', Select ''menu_items''])
              | Some item \<Rightarrow>
                 (if is_available item = 0 \<and> \<not> confirm
                  then (Inl Declined, f, [Select ''orders'', Select ''menu_items''])
                  else if \<not> in_int64 qty
                  then (Inl Overflow_error, f, [Select ''orders'', Select ''menu_items''])
                  else
                   (case new_key f ''order_items'' (map order_item_id (order_items (rows f))) of
                      None \<Rightarrow>
                        (Inl Sqlite_error, f,
                          [Select ''orders'', Select ''menu_items'', Insert ''order_items''])
                    | Some k \<Rightarrow>
                       (if price item = None \<and> unit_price_not_null f
                        then (Inl Integrity_error, f,
                               [Select ''orders'', Select ''menu_items'',
                                Insert ''order_items''])
                        else (Inr (item, qty),
                              insert_order_item k oid iid qty (price item) notes f,
                              [Select ''orders'', Select ''menu_items'',
                               Insert ''order_items'', Select ''orders'']))))))))"

text \<open>
  \<^verbatim>\<open>add_order_item\<close> (cli.py). After the block has been committed the command formats
  the price it read in order to print it; formatting \<^verbatim>\<open>None\<close> raises.
\<close>

definition add_order_item ::
  "int \<Rightarrow> int \<Rightarrow> int \<Rightarrow> string option \<Rightarrow> bool \<Rightarrow> world
     \<Rightarrow> (error + menu_item \<times> int) \<times> world" where
  "add_order_item oid iid qty notes confirm w =
     (case check_database_exists w of
        (False, w1) \<Rightarrow> (Inl Not_initialized, w1)
      | (True, w1) \<Rightarrow>
          if qty < 1 then (Inl Invalid_quantity, w1)
          else
            (case get_db_cursor (add_order_item_body oid iid qty notes confirm) w1 of
               (Inl e, w2) \<Rightarrow> (Inl e, w2)
             | (Inr (item, q), w2) \<Rightarrow>
                 if price item = None then (Inl Type_error, w2) else (Inr (item, q), w2)))"

section \<open>Manager commands\<close>




text \<open>
  \<^verbatim>\<open>UPDATE menu_items SET ... WHERE item_id = ?\<close> with exactly the columns whose
  option was given; \<^verbatim>\<open>1 if available else 0\<close> for the flag.
\<close>

definition set_fields :: "pyfloat option \<Rightarrow> bool option \<Rightarrow> string option \<Rightarrow> menu_item \<Rightarrow> menu_item" where
  "set_fields p av descr m =
     m\<lparr>price := (case p of None \<Rightarrow> price m | Some x \<Rightarrow> bind_float x),
       is_available := (case av of None \<Rightarrow> is_available m | Some b \<Rightarrow> if b then 1 else 0),
       mi_description := (case descr of None \<Rightarrow> mi_description m | Some d \<Rightarrow> Some d)\<rparr>"

definition update_rows ::
  "int \<Rightarrow> pyfloat option \<Rightarrow> bool option \<Rightarrow> string option \<Rightarrow> dbfile \<Rightarrow> dbfile" where
  "update_rows iid p av descr f =
     f\<lparr>rows := (rows f)\<lparr>menu_items :=
        map (\<lambda>m. if sint (item_id m) = iid then set_fields p av descr m else m)
          (menu_items (rows f))\<rparr>\<rparr>"

text \<open>
  \<^verbatim>\<open>SELECT mi.*, c.name AS category_name FROM menu_items mi JOIN categories c ON
  mi.category_id = c.category_id WHERE mi.item_id = ?\<close>, then \<^verbatim>\<open>fetchone\<close>.
\<close>

definition select_with_category :: "int \<Rightarrow> dbfile \<Rightarrow> (menu_item \<times> string) option" where
  "select_with_category iid f =
     (case concat (map (\<lambda>m. map (\<lambda>c. (m, c_name c))
                              (filter (\<lambda>c. category_id c = mi_category_id m) (categories (rows f))))
                    (filter (\<lambda>m. sint (item_id m) = iid) (menu_items (rows f)))) of
        [] \<Rightarrow> None
      | x # _ \<Rightarrow> Some x)"

text \<open>
  The block of \<^verbatim>\<open>update_menu_item\<close> under \<^verbatim>\<open>get_db_cursor\<close>. An item identity outside
  64 bits raises at the first query. A NaN price passes the comparison with 0 and is
  bound as NULL, which a \<^verbatim>\<open>NOT NULL\<close> column refuses.
\<close>

definition update_menu_item_body ::
  "int \<Rightarrow> pyfloat option \<Rightarrow> bool option \<Rightarrow> string option
     \<Rightarrow> (menu_item \<times> string) option body" where
  "update_menu_item_body iid p av descr f =
     (if \<not> in_int64 iid then (Inl Overflow_error, f, [])
      else
       (case find (\<lambda>m. sint (item_id m) = iid) (menu_items (rows f)) of
          None \<Rightarrow> (Inl (Item_not_found iid), f, [Select ''menu_items''])
        | Some item \<Rightarrow>
           (if (case p of None \<Rightarrow> False | Some x \<Rightarrow> le_zero x)
            then (Inl Invalid_price, f, [Select ''menu_items''])
            else if p = Some NaN \<and> price_not_null f
            then (Inl Integrity_error, f, [Select ''menu_items'', Update ''menu_items''])
            else (Inr (select_with_category iid (update_rows iid p av descr f)),
                  update_rows iid p av descr f,
                  [Select ''menu_items'', Update ''menu_items'', Select ''menu_items'']))))"

text \<open>
  \<^verbatim>\<open>update_menu_item\<close> (cli.py). After the block has been committed the command
  subscripts the joined row and formats its price in order to print it; when the join
  found no row, or the price is NULL, that raises.
\<close>

definition update_menu_item ::
  "int \<Rightarrow> pyfloat option \<Rightarrow> bool option \<Rightarrow> string option \<Rightarrow> world
     \<Rightarrow> (error + menu_item \<times> string) \<times> world" where
  "update_menu_item iid p av descr w =
     (case check_database_exists w of
        (False, w1) \<Rightarrow> (Inl Not_initialized, w1)
      | (True, w1) \<Rightarrow>
          if p = None \<and> av = None \<and> descr = None then (Inl No_updates, w1)
          else
            (case get_db_cursor (update_menu_item_body iid p av descr) w1 of
               (Inl e, w2) \<Rightarrow> (Inl e, w2)
             | (Inr None, w2) \<Rightarrow> (Inl Type_error, w2)
             | (Inr (Some (m, cn)), w2) \<Rightarrow>
                 if price m = None then (Inl Type_error, w2) else (Inr (m, cn), w2)))"

text \<open>The state in which a command of the program starts: no connection, nothing logged.\<close>

definition start :: "dbfile option \<Rightarrow> world" where
  "start d = \<lparr>disk = d, conn_open = False, foreign_keys = False, pending = file_of d,
     cursor_open = False, trace = []\<rparr>"

section \<open>Notions used to state the properties\<close>

text \<open>
  The database is initialised when its file exists and lists at least one user table:
  the condition under which \<open>check_database_exists\<close> answers true.
\<close>

definition initialized :: "world \<Rightarrow> bool" where
  "initialized w = (case disk w of None \<Rightarrow> False | Some f \<Rightarrow> 0 < user_tables f)"

text \<open>What \<open>check_database_exists\<close> does on an existing file, and the state it leaves.\<close>

definition probe_trace :: "event list" where
  "probe_trace = [Connect, Exec Pragma_foreign_keys_on, Open_cursor,
     Exec (Select ''sqlite_master''), Commit, Close_cursor, Close_conn]"

definition probed :: "dbfile \<Rightarrow> world \<Rightarrow> world" where
  "probed f w = \<lparr>disk = Some f, conn_open = False, foreign_keys = True, pending = f,
     cursor_open = False, trace = trace w @ probe_trace\<rparr>"

text \<open>The events that a command added to the trace.\<close>

definition new_events :: "world \<Rightarrow> world \<Rightarrow> event list" where
  "new_events w w' = drop (length (trace w)) (trace w')"

text \<open>
  A small initialised database for concrete runs: one customer, table T01 with four
  seats and a confirmed reservation at 18:00 on 2025-06-01, one menu item, a completed
  order and an open one.
\<close>

definition demo_rows :: database where
  "demo_rows =
     \<lparr>customers = [\<lparr>customer_id = 1, first_name = ''Ada'', last_name = ''Byron''\<rparr>],
      tables = [\<lparr>table_id = 1, table_number = ''T01'', capacity = 4\<rparr>],
      reservations = [\<lparr>reservation_id = 1, r_customer_id = 1, r_table_id = 1,
         reservation_date = ''2025-06-01'', reservation_time = ''18:00'', party_size = 2,
         r_status = ''Confirmed'', special_requests = None\<rparr>],
      categories = [\<lparr>category_id = 1, c_name = ''Mains''\<rparr>],
      menu_items = [\<lparr>item_id = 1, mi_name = ''Soup'', mi_description = None,
         price = Some (Finite 12),
         mi_category_id = 1, is_available = 1\<rparr>],
      orders = [\<lparr>order_id = 1, o_status = ''Completed''\<rparr>, \<lparr>order_id = 2, o_status = ''Open''\<rparr>],
      order_items = []\<rparr>"

definition demo_file :: dbfile where
  "demo_file = \<lparr>user_tables = 9, status_default = ''Confirmed'', available_default = 1,
     price_not_null = True, unit_price_not_null = True, new_key = (\<lambda>_. next_rowid),
     rows = demo_rows\<rparr>"

text \<open>The same database with the reservation at 23:30 instead.\<close>

definition late_file :: dbfile where
  "late_file = demo_file\<lparr>rows := demo_rows\<lparr>reservations :=
     [\<lparr>reservation_id = 1, r_customer_id = 1, r_table_id = 1,
       reservation_date = ''2025-06-01'', reservation_time = ''23:30'', party_size = 2,
       r_status = ''Confirmed'', special_requests = None\<rparr>]\<rparr>\<rparr>"

text \<open>The \<open>n\<close>-th row of a query result in which all rows are for the same day.\<close>

definition upcoming_no :: "nat \<Rightarrow> upcoming" where
  "upcoming_no n = \<lparr>u_reservation_id = int n, u_reservation_date = ''2025-06-01'',
     u_reservation_time = ''18:00'', customer_name = ''Ada Byron'', u_table_number = ''T01'',
     u_party_size = 2, u_special_requests = None\<rparr>"

text \<open>The same database with a price column that accepts NULL.\<close>

definition nullable_file :: dbfile where
  "nullable_file = demo_file\<lparr>price_not_null := False\<rparr>"

text \<open>The same database without its category rows.\<close>

definition orphan_file :: dbfile where
  "orphan_file = demo_file\<lparr>rows := demo_rows\<lparr>categories := []\<rparr>\<rparr>"



section \<open>Properties of the transaction manager\<close>

lemma fk_scan_exec:
  "fk_scan (Some True) (map Exec ss @ es) = fk_scan (Some True) es"
proof (induction ss)
  case Nil
  show ?case by simp
next
  case (Cons s ss)
  then show ?case by (cases s) simp_all
qed

lemma get_db_cursor_result:
  assumes "body (file_of (disk w)) = (r, f, ss)"
  shows "get_db_cursor body w =
     (r, \<lparr>disk = Some (if isl r then file_of (disk w) else f),
          conn_open = False, foreign_keys = True,
          pending = (if isl r then file_of (disk w) else f),
          cursor_open = False,
          trace = trace w @ [Connect, Exec Pragma_foreign_keys_on, Open_cursor] @ map Exec ss
                    @ [if isl r then Rollback else Commit, Close_cursor, Close_conn]\<rparr>)"
  using assms
  by (cases r)
     (simp_all add: get_db_cursor_def run_body_def conn_cursor_def get_connection_def
        sqlite3_connect_def conn_commit_def conn_rollback_def cursor_close_def
        conn_close_def log_def file_of_def)

text \<open>
  C2. A unit of work run under \<open>get_db_cursor\<close>: whatever the block returns or raises is
  what the caller gets; when it raises, the file holds what it held when the connection
  was acquired, so every statement issued since is undone, and the trace shows one
  rollback after the statements; when it returns, the file holds the database as the
  statements left it, written by one commit after the last statement; on both paths the
  cursor and then the connection are closed.
\<close>

theorem get_db_cursor_unit_of_work:
  assumes "body (file_of (disk w)) = (r, f, ss)"
  shows "fst (get_db_cursor body w) = r
    \<and> (isl r \<longrightarrow> disk (snd (get_db_cursor body w)) = Some (file_of (disk w)))
    \<and> (\<not> isl r \<longrightarrow> disk (snd (get_db_cursor body w)) = Some f)
    \<and> \<not> cursor_open (snd (get_db_cursor body w))
    \<and> \<not> conn_open (snd (get_db_cursor body w))
    \<and> trace (snd (get_db_cursor body w)) =
        trace w @ [Connect, Exec Pragma_foreign_keys_on, Open_cursor] @ map Exec ss
          @ [if isl r then Rollback else Commit, Close_cursor, Close_conn]"
  using assms get_db_cursor_result [of body w r f ss] by simp

lemma start_simps:
  "disk (start d) = d" "trace (start d) = []"
  by (simp_all add: start_def)

lemma in_int64_small:
  "in_int64 0" "in_int64 1" "in_int64 2" "in_int64 3" "in_int64 5" "in_int64 7" "in_int64 8"
  "in_int64 9" "in_int64 99"
  by (simp_all add: in_int64_def)

lemma sint_in_int64: "in_int64 (sint (x :: int64))"
  using sint_ge [of x] sint_lt [of x] by (simp add: in_int64_def)

lemma find_Some_holds: "find P xs = Some x \<Longrightarrow> P x"
  by (induction xs) (auto split: if_splits)

lemma find_sint_in_int64:
  "find (\<lambda>x. sint (key x :: int64) = i) xs = Some y \<Longrightarrow> in_int64 i"
  using find_Some_holds [of "\<lambda>x. sint (key x) = i" xs y] sint_in_int64 [of "key y"] by simp

lemma next_rowid_simps:
  "next_rowid [] = Some 1" "next_rowid [1] = Some 2"
  by (simp_all add: next_rowid_def)

lemma demo_keys:
  "new_key demo_file t ids = next_rowid ids" "new_key late_file t ids = next_rowid ids"
  "new_key nullable_file t ids = next_rowid ids" "new_key orphan_file t ids = next_rowid ids"
  by (simp_all add: demo_file_def late_file_def nullable_file_def orphan_file_def)

lemma demo_closed_body:
  "add_order_item_body 1 1 2 None False demo_file =
     (Inl (Order_closed ''Completed''), demo_file, [Select ''orders''])"
  by (simp add: add_order_item_body_def demo_file_def demo_rows_def in_int64_small)

lemma demo_open_body:
  "add_order_item_body 2 1 3 None False demo_file =
     (Inr (\<lparr>item_id = 1, mi_name = ''Soup'', mi_description = None, price = Some (Finite 12),
            mi_category_id = 1, is_available = 1\<rparr>, 3),
      insert_order_item 1 2 1 3 (Some (Finite 12)) None demo_file,
      [Select ''orders'', Select ''menu_items'', Insert ''order_items'', Select ''orders''])"
  by (simp add: add_order_item_body_def demo_file_def demo_rows_def in_int64_small
      next_rowid_simps)

text \<open>
  Two runs of C2: a block that raises on the completed order, and a block that inserts an
  item into the open order.
\<close>

theorem get_db_cursor_unit_of_work_witness:
  "fst (get_db_cursor (add_order_item_body 1 1 2 None False) (start (Some demo_file))) =
      Inl (Order_closed ''Completed'')
   \<and> disk (snd (get_db_cursor (add_order_item_body 1 1 2 None False) (start (Some demo_file)))) =
      Some demo_file
   \<and> \<not> conn_open (snd (get_db_cursor (add_order_item_body 1 1 2 None False) (start (Some demo_file))))
   \<and> fst (get_db_cursor (add_order_item_body 2 1 3 None False) (start (Some demo_file))) =
      Inr (\<lparr>item_id = 1, mi_name = ''Soup'', mi_description = None, price = Some (Finite 12),
            mi_category_id = 1, is_available = 1\<rparr>, 3)
   \<and> disk (snd (get_db_cursor (add_order_item_body 2 1 3 None False) (start (Some demo_file)))) =
      Some (insert_order_item 1 2 1 3 (Some (Finite 12)) None demo_file)
   \<and> \<not> cursor_open (snd (get_db_cursor (add_order_item_body 2 1 3 None False) (start (Some demo_file))))"
proof -
  have a: "add_order_item_body 1 1 2 None False (file_of (disk (start (Some demo_file)))) =
      (Inl (Order_closed ''Completed''), demo_file, [Select ''orders''])"
    by (simp add: start_simps file_of_def demo_closed_body)
  have b: "add_order_item_body 2 1 3 None False (file_of (disk (start (Some demo_file)))) =
     (Inr (\<lparr>item_id = 1, mi_name = ''Soup'', mi_description = None, price = Some (Finite 12),
            mi_category_id = 1, is_available = 1\<rparr>, 3),
      insert_order_item 1 2 1 3 (Some (Finite 12)) None demo_file,
      [Select ''orders'', Select ''menu_items'', Insert ''order_items'', Select ''orders''])"
    by (simp add: start_simps file_of_def demo_open_body)
  show ?thesis
    using get_db_cursor_unit_of_work [of "add_order_item_body 1 1 2 None False"
        "start (Some demo_file)" "Inl (Order_closed ''Completed'')" demo_file "[Select ''orders'']"]
      get_db_cursor_unit_of_work [of "add_order_item_body 2 1 3 None False"
        "start (Some demo_file)" _ "insert_order_item 1 2 1 3 (Some (Finite 12)) None demo_file"
        "[Select ''orders'', Select ''menu_items'', Insert ''order_items'', Select ''orders'']"]
      a b
    by (simp add: start_simps file_of_def)
qed

section \<open>The initialisation check that opens every command\<close>

lemma gate:
  "disk w = Some f \<Longrightarrow> check_database_exists w = (0 < user_tables f, probed f w)"
  using get_db_cursor_result [of count_tables w "Inr (0 < user_tables f)" f "[Select ''sqlite_master'']"]
  by (simp add: check_database_exists_def count_tables_def file_of_def probed_def probe_trace_def)

lemma gate_none: "disk w = None \<Longrightarrow> check_database_exists w = (False, w)"
  by (simp add: check_database_exists_def)

lemma after_gate:
  "get_db_cursor body (probed f w) =
     (case body f of (r, f', ss) \<Rightarrow>
       (r, \<lparr>disk = Some (if isl r then f else f'), conn_open = False, foreign_keys = True,
          pending = (if isl r then f else f'), cursor_open = False,
          trace = trace w @ probe_trace @ [Connect, Exec Pragma_foreign_keys_on, Open_cursor]
                    @ map Exec ss @ [if isl r then Rollback else Commit, Close_cursor, Close_conn]\<rparr>))"
proof (cases "body f")
  case (fields r f' ss)
  then show ?thesis
    using get_db_cursor_result [of body "probed f w" r f' ss]
    by (simp add: probed_def file_of_def)
qed

lemma probed_simps:
  "disk (probed f w) = Some f" "trace (probed f w) = trace w @ probe_trace"
  by (simp_all add: probed_def)

lemma demo_tables: "user_tables demo_file = 9"
  by (simp add: demo_file_def)

section \<open>Adding an item to an order\<close>

text \<open>
  C7, as amended. A request with a quantity below 1 fails, leaves the file as it was and
  issues no write. On an initialised database the failure is the quantity error, and it
  comes after the initialisation check, which opens a connection, reads
  \<^verbatim>\<open>sqlite_master\<close>, commits and closes; nothing else is opened or executed.
\<close>

theorem add_order_item_quantity_rejected:
  assumes "qty < 1"
  shows "isl (fst (add_order_item oid iid qty notes confirm w))
    \<and> disk (snd (add_order_item oid iid qty notes confirm w)) = disk w
    \<and> list_all (\<lambda>e. \<not> is_write e) (new_events w (snd (add_order_item oid iid qty notes confirm w)))
    \<and> (initialized w \<longrightarrow>
         fst (add_order_item oid iid qty notes confirm w) = Inl Invalid_quantity
       \<and> trace (snd (add_order_item oid iid qty notes confirm w)) = trace w @ probe_trace)"
proof (cases "disk w")
  case None
  then show ?thesis
    by (simp add: add_order_item_def gate_none initialized_def new_events_def)
next
  case (Some f)
  then show ?thesis using assms
    by (simp add: add_order_item_def gate initialized_def new_events_def probed_def
        probe_trace_def split: bool.split)
qed

text \<open>
  C7 as stated fails: with a quantity of 0 on an initialised database the command has
  opened a connection and executed statements by the time it fails.
\<close>

theorem add_order_item_quantity_counterexample:
  "fst (add_order_item 2 1 0 None False (start (Some demo_file))) = Inl Invalid_quantity
   \<and> trace (snd (add_order_item 2 1 0 None False (start (Some demo_file)))) =
       [Connect, Exec Pragma_foreign_keys_on, Open_cursor, Exec (Select ''sqlite_master''),
        Commit, Close_cursor, Close_conn]"
  by (simp add: add_order_item_def gate [of _ demo_file] start_simps probed_def probe_trace_def
      demo_file_def)

theorem add_order_item_quantity_rejected_witness:
  "(0::int) < 1
   \<and> fst (add_order_item 2 1 0 None False (start (Some demo_file))) = Inl Invalid_quantity
   \<and> disk (snd (add_order_item 2 1 0 None False (start (Some demo_file)))) = Some demo_file"
  using add_order_item_quantity_rejected [of 0 2 1 None False "start (Some demo_file)"]
  by (simp add: start_simps initialized_def demo_file_def)

text \<open>
  C3, as amended. On an initialised database, a request whose order exists and is
  completed or cancelled fails with the closed-order error when its quantity is at least
  1, and with the quantity error, which is checked first, when it is not; either way
  the file, and so the order's items, is unchanged and no write is issued.
\<close>

theorem add_order_item_closed_order:
  assumes "disk w = Some f" and "0 < user_tables f"
    and "find (\<lambda>ord. sint (order_id ord) = oid) (orders (rows f)) = Some ord"
    and "o_status ord = ''Completed'' \<or> o_status ord = ''Cancelled''"
  shows "fst (add_order_item oid iid qty notes confirm w) =
           Inl (if qty < 1 then Invalid_quantity else Order_closed (o_status ord))
    \<and> disk (snd (add_order_item oid iid qty notes confirm w)) = Some f
    \<and> list_all (\<lambda>e. \<not> is_write e) (new_events w (snd (add_order_item oid iid qty notes confirm w)))"
proof (cases "qty < 1")
  case True
  then show ?thesis using assms(1,2)
    by (simp add: add_order_item_def gate new_events_def probed_def probe_trace_def)
next
  case False
  have range: "in_int64 oid"
    using find_sint_in_int64 [OF assms(3)] .
  have body: "add_order_item_body oid iid qty notes confirm f =
      (Inl (Order_closed (o_status ord)), f, [Select ''orders''])"
    using assms(3,4) range by (auto simp add: add_order_item_body_def)
  show ?thesis using False assms(1,2)
    by (simp add: add_order_item_def gate after_gate body new_events_def probe_trace_def)
qed

text \<open>
  C3 as stated fails: a request with quantity 0 on the completed order is rejected with
  the quantity error, not the closed-order error.
\<close>

theorem add_order_item_closed_counterexample:
  "find (\<lambda>ord. sint (order_id ord) = 1) (orders (rows demo_file)) =
      Some \<lparr>order_id = 1, o_status = ''Completed''\<rparr>
   \<and> fst (add_order_item 1 1 0 None False (start (Some demo_file))) = Inl Invalid_quantity"
  by (simp add: add_order_item_def gate [of _ demo_file] start_simps demo_file_def demo_rows_def)

theorem add_order_item_closed_order_witness:
  "fst (add_order_item 1 1 2 None False (start (Some demo_file))) = Inl (Order_closed ''Completed'')
   \<and> disk (snd (add_order_item 1 1 2 None False (start (Some demo_file)))) = Some demo_file"
  using add_order_item_closed_order [of "start (Some demo_file)" demo_file 1
      "\<lparr>order_id = 1, o_status = ''Completed''\<rparr>" 1 2 None False]
  by (simp add: start_simps demo_file_def demo_rows_def)

lemma update_menu_item_frame:
  "order_items (rows (file_of (disk (snd (update_menu_item i p av d w))))) =
     order_items (rows (file_of (disk w)))"
proof (cases "disk w")
  case None
  then show ?thesis by (simp add: update_menu_item_def gate_none)
next
  case (Some f)
  show ?thesis
    by (simp add: update_menu_item_def gate [OF Some] after_gate update_menu_item_body_def
        update_rows_def probed_simps file_of_def Some
        split: bool.split option.split sum.split prod.split)
qed

text \<open>
  C4. A successful \<open>add_order_item\<close> appends one order-item row whose unit price is the
  price that the menu item has in the database the command started from, and
  \<open>update_menu_item\<close>, whatever its arguments and whatever the state it runs in, leaves
  the order-item rows as they are.
\<close>

theorem price_snapshot:
  "(\<not> isl (fst (add_order_item oid iid qty notes confirm w)) \<longrightarrow>
      (\<exists>f item k. disk w = Some f
         \<and> find (\<lambda>m. sint (item_id m) = iid) (menu_items (rows f)) = Some item
         \<and> new_key f ''order_items'' (map order_item_id (order_items (rows f))) = Some k
         \<and> order_items (rows (file_of (disk (snd (add_order_item oid iid qty notes confirm w))))) =
             order_items (rows f) @
               [\<lparr>order_item_id = k, oi_order_id = word_of_int oid, oi_item_id = word_of_int iid,
                 quantity = word_of_int qty, unit_price = price item,
                 special_instructions = notes\<rparr>]))
   \<and> order_items (rows (file_of (disk (snd (update_menu_item i p av d w2))))) =
       order_items (rows (file_of (disk w2)))"
proof (intro conjI impI)
  assume ok: "\<not> isl (fst (add_order_item oid iid qty notes confirm w))"
  show "\<exists>f item k. disk w = Some f
         \<and> find (\<lambda>m. sint (item_id m) = iid) (menu_items (rows f)) = Some item
         \<and> new_key f ''order_items'' (map order_item_id (order_items (rows f))) = Some k
         \<and> order_items (rows (file_of (disk (snd (add_order_item oid iid qty notes confirm w))))) =
             order_items (rows f) @
               [\<lparr>order_item_id = k, oi_order_id = word_of_int oid, oi_item_id = word_of_int iid,
                 quantity = word_of_int qty, unit_price = price item,
                 special_instructions = notes\<rparr>]"
  proof (cases "disk w")
    case None
    with ok show ?thesis by (simp add: add_order_item_def gate_none)
  next
    case (Some f)
    from ok have init: "0 < user_tables f" and q: "\<not> qty < 1"
      by (auto simp add: add_order_item_def gate [OF Some] split: bool.splits if_splits)
    from ok init q have b: "\<not> isl (fst (add_order_item_body oid iid qty notes confirm f))"
      by (auto simp add: add_order_item_def gate [OF Some] after_gate split: prod.splits sum.splits)
    then obtain item k where item: "find (\<lambda>m. sint (item_id m) = iid) (menu_items (rows f)) = Some item"
      and k: "new_key f ''order_items'' (map order_item_id (order_items (rows f))) = Some k"
      and body: "add_order_item_body oid iid qty notes confirm f =
        (Inr (item, qty), insert_order_item k oid iid qty (price item) notes f,
         [Select ''orders'', Select ''menu_items'', Insert ''order_items'', Select ''orders''])"
      by (auto simp add: add_order_item_body_def split: option.splits if_splits)
    show ?thesis using init q item k
      by (simp add: add_order_item_def gate [OF Some] after_gate body insert_order_item_def
          file_of_def Some)
  qed
next
  show "order_items (rows (file_of (disk (snd (update_menu_item i p av d w2))))) =
       order_items (rows (file_of (disk w2)))"
    by (rule update_menu_item_frame)
qed

text \<open>
  A run of C4: three soups at 12 are added to the open order; after the menu price is
  raised to 15 the order line still carries 12.
\<close>

theorem price_snapshot_witness:
  "\<not> isl (fst (add_order_item 2 1 3 None False (start (Some demo_file))))
   \<and> map unit_price (order_items (rows (file_of
        (disk (snd (add_order_item 2 1 3 None False (start (Some demo_file)))))))) =
       [Some (Finite 12)]
   \<and> map unit_price (order_items (rows (file_of (disk (snd (update_menu_item 1 (Some (Finite 15))
        None None (snd (add_order_item 2 1 3 None False (start (Some demo_file))))))))))=
       [Some (Finite 12)]"
proof -
  have ok: "\<not> isl (fst (add_order_item 2 1 3 None False (start (Some demo_file))))"
    by (simp add: add_order_item_def gate [of _ demo_file] after_gate demo_open_body start_simps
        demo_tables)
  show ?thesis
    using ok price_snapshot [of 2 1 3 None False "start (Some demo_file)" 1 "Some (Finite 15)"
        None None "snd (add_order_item 2 1 3 None False (start (Some demo_file)))"]
    by (auto simp add: start_simps demo_file_def demo_rows_def)
qed

section \<open>Adding and updating menu items\<close>




lemma demo_disk:
  "disk (start (Some demo_file)) = Some demo_file" "0 < user_tables demo_file"
  "disk (start (Some late_file)) = Some late_file" "0 < user_tables late_file"
  "disk (start (Some nullable_file)) = Some nullable_file" "0 < user_tables nullable_file"
  by (simp_all add: start_simps demo_file_def late_file_def nullable_file_def)












section \<open>Times of day as text\<close>














section \<open>Creating a reservation\<close>

lemma create_reservation_unfold:
  assumes "disk w = Some f"
  shows "create_reservation cid tid date_str time_str party notes today confirm w =
     (if \<not> 0 < user_tables f then (Inl Not_initialized, probed f w)
      else
       (case (strptime_Ymd date_str, strptime_HM time_str) of
          (Some d, Some _) \<Rightarrow>
            (if date_less d today then (Inl Past_date, probed f w)
             else if party < 1 then (Inl Invalid_party_size, probed f w)
             else
              (case create_reservation_body cid tid date_str time_str party notes confirm f of
                 (r, f', ss) \<Rightarrow>
                   (r, \<lparr>disk = Some (if isl r then f else f'), conn_open = False,
                        foreign_keys = True, pending = (if isl r then f else f'),
                        cursor_open = False,
                        trace = trace w @ probe_trace
                          @ [Connect, Exec Pragma_foreign_keys_on, Open_cursor]
                          @ map Exec ss
                          @ [if isl r then Rollback else Commit, Close_cursor, Close_conn]\<rparr>)))
        | _ \<Rightarrow> (Inl Invalid_format, probed f w)))"
  using assms
  by (simp add: create_reservation_def gate after_gate split: option.split bool.split)





lemmas eval_defs = strptime_Ymd_def strptime_HM_def is_digit_def digit_def days_in_month_def
  is_leap_def sqlite_time_def sqlite_hhmm_def two_digits_def digit_char_def sql_between_def
  conflicting_def

lemma demo_conflicts:
  "conflicting demo_file 1 ''2025-06-01'' ''18:45'' \<noteq> []"
  "conflicting demo_file 1 ''2025-06-01'' ''19:10'' = []"
  "conflicting demo_file 1 ''2025-06-01'' ''19:00'' = []"
  "conflicting demo_file 1 ''2025-06-01'' ''17:00'' \<noteq> []"
  "conflicting late_file 1 ''2025-06-01'' ''23:45'' = []"
  by (simp_all add: eval_defs demo_file_def demo_rows_def late_file_def)

lemma demo_dates:
  "strptime_Ymd ''2025-06-01'' = Some (2025, 6, 1)"
  "strptime_HM ''18:45'' = Some (18, 45)"
  "strptime_HM ''19:10'' = Some (19, 10)"
  "strptime_HM ''19:00'' = Some (19, 0)"
  "strptime_HM ''17:00'' = Some (17, 0)"
  "strptime_HM ''23:45'' = Some (23, 45)"
  "strptime_HM ''25:00'' = None"
  by (simp_all add: eval_defs)

lemma demo_finds:
  "find (\<lambda>c. sint (customer_id c) = 1) (customers (rows demo_file)) =
     Some \<lparr>customer_id = 1, first_name = ''Ada'', last_name = ''Byron''\<rparr>"
  "find (\<lambda>c. sint (customer_id c) = 5) (customers (rows demo_file)) = None"
  "find (\<lambda>t. sint (table_id t) = 1) (tables (rows demo_file)) =
     Some \<lparr>table_id = 1, table_number = ''T01'', capacity = 4\<rparr>"
  "find (\<lambda>t. sint (table_id t) = 8) (tables (rows demo_file)) = None"
  "find (\<lambda>c. sint (customer_id c) = 1) (customers (rows late_file)) =
     Some \<lparr>customer_id = 1, first_name = ''Ada'', last_name = ''Byron''\<rparr>"
  "find (\<lambda>t. sint (table_id t) = 1) (tables (rows late_file)) =
     Some \<lparr>table_id = 1, table_number = ''T01'', capacity = 4\<rparr>"
  "map reservation_id (reservations (rows demo_file)) = [1]"
  "map reservation_id (reservations (rows late_file)) = [1]"
  by (simp_all add: demo_file_def demo_rows_def late_file_def)





lemmas run_defs = create_reservation_body_def demo_tables demo_dates demo_finds demo_conflicts
  in_int64_small demo_keys next_rowid_simps insert_reservation_def




text \<open>
  C1. The table holds a confirmed reservation at 18:00; a request for the same table and
  date at 19:00, exactly 60 minutes later, is accepted and inserted, because the stored
  text \<^verbatim>\<open>18:00\<close> sorts before the lower bound \<^verbatim>\<open>18:00:00\<close>. With a confirmed reservation
  at 23:30, a request at 23:45 is accepted and inserted, because the upper bound wraps
  to \<^verbatim>\<open>00:45:00\<close> and the interval is empty.
\<close>

theorem create_reservation_misses_conflicts:
  "map reservation_time (reservations (rows demo_file)) = [''18:00'']
   \<and> fst (create_reservation 1 1 ''2025-06-01'' ''19:00'' 2 None (2025, 5, 31) False (start (Some demo_file))) = Inr (2, \<lparr>customer_id = 1, first_name = ''Ada'', last_name = ''Byron''\<rparr>, \<lparr>table_id = 1, table_number = ''T01'', capacity = 4\<rparr>)
   \<and> map reservation_time (reservations (rows (file_of (disk (snd (create_reservation 1 1 ''2025-06-01'' ''19:00'' 2 None (2025, 5, 31) False (start (Some demo_file)))))))) =
       [''18:00'', ''19:00'']
   \<and> map reservation_time (reservations (rows late_file)) = [''23:30'']
   \<and> fst (create_reservation 1 1 ''2025-06-01'' ''23:45'' 2 None (2025, 5, 31) False (start (Some late_file))) = Inr (2, \<lparr>customer_id = 1, first_name = ''Ada'', last_name = ''Byron''\<rparr>, \<lparr>table_id = 1, table_number = ''T01'', capacity = 4\<rparr>)
   \<and> map reservation_time (reservations (rows (file_of (disk (snd (create_reservation 1 1 ''2025-06-01'' ''23:45'' 2 None (2025, 5, 31) False (start (Some late_file)))))))) =
       [''23:30'', ''23:45'']"
  by (simp add: create_reservation_unfold [OF demo_disk(1)]
      create_reservation_unfold [OF demo_disk(3)] run_defs demo_disk file_of_def)
    (simp add: demo_file_def demo_rows_def late_file_def)

section \<open>Foreign-key enforcement\<close>

text \<open>
  Every connection that \<open>get_connection\<close> returns has the flag on, and a unit of work
  under \<open>get_db_cursor\<close> runs all its events with the flag on.
\<close>

lemma get_connection_foreign_keys: "foreign_keys (get_connection w)"
  by (simp add: get_connection_def log_def)

lemma get_db_cursor_foreign_keys:
  "foreign_keys_enforced (trace (snd (get_db_cursor body (start d))))"
proof (cases "body (file_of d)")
  case (fields r f ss)
  then show ?thesis
    using get_db_cursor_result [of body "start d" r f ss] fk_scan_exec [of ss]
    by (simp add: foreign_keys_enforced_def start_simps)
qed

text \<open>
  C8. \<open>init_database\<close> opens its connection with \<^verbatim>\<open>sqlite3.connect\<close> and does not set
  the pragma: with a schema script that only creates a table, the script runs, and the
  connection is committed and closed, with enforcement off. \<open>reset_database\<close> goes
  through \<open>init_database\<close> and behaves the same.
\<close>

theorem init_database_foreign_keys_off:
  "trace (snd (init_database (Some [Create_table ''customers'']) (start None))) =
     [Connect, Exec_script (Create_table ''customers''), Commit, Close_conn]
   \<and> \<not> foreign_keys_enforced
        (trace (snd (init_database (Some [Create_table ''customers'']) (start None))))
   \<and> \<not> foreign_keys_enforced
        (trace (snd (reset_database (Some [Create_table ''customers'']) (start (Some demo_file)))))"
  by (simp add: init_database_def reset_database_def sqlite3_connect_def conn_commit_def
      conn_close_def log_def start_def foreign_keys_enforced_def)

section \<open>Listing reservations\<close>

lemma list_reservations_run:
  assumes "disk w = Some f" and "0 < user_tables f"
  shows "fst (list_reservations results date_str w) =
           Inr (map table_line (take 20 (date_filter date_str results)))"
  using assms by (simp add: list_reservations_def gate)

lemma date_filter_sub: "\<exists>P. date_filter date_str results = filter P results"
proof (cases date_str)
  case None
  then have "date_filter date_str results = filter (\<lambda>_. True) results"
    by (simp add: date_filter_def)
  then show ?thesis by blast
next
  case (Some d)
  show ?thesis
  proof (cases "d = []")
    case True
    with Some have "date_filter date_str results = filter (\<lambda>_. True) results"
      by (simp add: date_filter_def)
    then show ?thesis by blast
  next
    case False
    with Some show ?thesis by (auto simp add: date_filter_def)
  qed
qed

text \<open>
  C9, as amended. On an initialised database the command presents the first twenty rows,
  in the order of the query result, of the rows that pass the date filter (all rows
  when no date is given, the rows of that date otherwise); every presented row is a
  row of the query result, with the customer name and table number the query joined;
  an order that the query result has is kept; and when at most twenty rows pass the
  filter, none is left out.
\<close>

theorem list_reservations_first_twenty:
  assumes "disk w = Some f" and "0 < user_tables f"
  shows "fst (list_reservations results date_str w) =
           Inr (map table_line (take 20 (date_filter date_str results)))
    \<and> date_filter None results = results
    \<and> (\<forall>d. d \<noteq> [] \<longrightarrow>
          date_filter (Some d) results = filter (\<lambda>r. u_reservation_date r = d) results)
    \<and> (length (date_filter date_str results) \<le> 20 \<longrightarrow>
          fst (list_reservations results date_str w) =
            Inr (map table_line (date_filter date_str results)))
    \<and> (sorted_wrt before results \<longrightarrow> sorted_wrt before (take 20 (date_filter date_str results)))"
proof -
  obtain P where P: "date_filter date_str results = filter P results"
    using date_filter_sub by blast
  have run: "fst (list_reservations results date_str w) =
      Inr (map table_line (take 20 (date_filter date_str results)))"
    using list_reservations_run [OF assms] .
  have none: "date_filter None results = results"
    by (simp add: date_filter_def)
  have some: "\<forall>d. d \<noteq> [] \<longrightarrow>
      date_filter (Some d) results = filter (\<lambda>r. u_reservation_date r = d) results"
    by (simp add: date_filter_def)
  have short: "length (date_filter date_str results) \<le> 20 \<longrightarrow>
      fst (list_reservations results date_str w) =
        Inr (map table_line (date_filter date_str results))"
    using run by simp
  have ord: "sorted_wrt before results \<longrightarrow>
      sorted_wrt before (take 20 (date_filter date_str results))"
    unfolding P by (simp add: sorted_wrt_filter)
  from run none some short ord show ?thesis by blast
qed

text \<open>
  C9 as stated fails: of 21 upcoming reservations the command presents the first 20; the
  21st is a row of the query result and is not presented.
\<close>

theorem list_reservations_counterexample:
  "upcoming_no 21 \<in> set (map upcoming_no [1..<22])
   \<and> fst (list_reservations (map upcoming_no [1..<22]) None (start (Some demo_file))) =
       Inr (map table_line (map upcoming_no [1..<21]))
   \<and> table_line (upcoming_no 21) \<notin> set (map table_line (map upcoming_no [1..<21]))"
proof -
  have a: "[1..<22] = [1..<21] @ [21::nat]"
    by (simp add: upt_rec)
  have b: "length [1..<21::nat] = 20" by simp
  have c: "take 20 (map upcoming_no [1..<22]) = map upcoming_no [1..<21]"
    unfolding a by (simp del: upt_Suc)
  have d: "map upcoming_no [1..<22] \<noteq> []" unfolding a by simp
  show ?thesis
    using c d
    by (auto simp add: list_reservations_def gate [of _ demo_file] start_simps demo_tables
        date_filter_def table_line_def upcoming_no_def a)
qed

theorem list_reservations_first_twenty_witness:
  "sorted_wrt (\<lambda>a b. u_reservation_id a \<le> u_reservation_id b) [upcoming_no 1, upcoming_no 2]
   \<and> length (date_filter (Some ''2025-06-01'') [upcoming_no 1, upcoming_no 2]) \<le> 20
   \<and> fst (list_reservations [upcoming_no 1, upcoming_no 2] (Some ''2025-06-01'')
          (start (Some demo_file))) =
       Inr [table_line (upcoming_no 1), table_line (upcoming_no 2)]
   \<and> sorted_wrt (\<lambda>a b. u_reservation_id a \<le> u_reservation_id b)
        (take 20 (date_filter (Some ''2025-06-01'') [upcoming_no 1, upcoming_no 2]))
   \<and> fst (list_reservations [upcoming_no 1, upcoming_no 2] (Some ''2025-07-01'')
          (start (Some demo_file))) = Inr []"
  using list_reservations_first_twenty [OF demo_disk(1,2), of "[upcoming_no 1, upcoming_no 2]"
      "Some ''2025-06-01''" "\<lambda>a b. u_reservation_id a \<le> u_reservation_id b"]
    list_reservations_first_twenty [OF demo_disk(1,2), of "[upcoming_no 1, upcoming_no 2]"
      "Some ''2025-07-01''" "\<lambda>a b. u_reservation_id a \<le> u_reservation_id b"]
  by (simp add: upcoming_no_def)

end
